theory Spec2Isabelle
  imports Complex_Main
begin

section \<open>Numbers, tags and the review context\<close>

text \<open>
  The scheduling code of \<^verbatim>\<open>src/utils/spacedRepetition.ts\<close> computes on JavaScript
  numbers. They are modelled exactly: a fractional quantity (ease factor, multiplier) is a
  \<^typ>\<open>real\<close>, an integer-valued one (repetitions, interval in days, streak, quality,
  a timestamp in milliseconds) is an \<^typ>\<open>int\<close>. Rounding error of binary floating
  point, NaN and the infinities are outside this model.

  \<^verbatim>\<open>Math.round\<close> rounds to the nearest integer, a tie towards plus infinity.
\<close>

definition Math_round :: "real \<Rightarrow> int" where
  "Math_round x = \<lfloor>x + 1 / 2\<rfloor>"

definition Math_ceil :: "real \<Rightarrow> int" where
  "Math_ceil x = \<lceil>x\<rceil>"

text \<open>
  The tags are TypeScript string unions (\<^verbatim>\<open>'certeza' | 'duvida' | 'chute'\<close>,
  \<^verbatim>\<open>'triagem' | 'vermelha' | 'amarela' | 'verde'\<close>, \<^verbatim>\<open>'easy' | 'medium' | 'hard'\<close>);
  every \<^verbatim>\<open>switch\<close> over them has a \<^verbatim>\<open>default\<close> branch, so they are kept as
  strings and an unrecognised tag takes that branch.
\<close>

type_synonym ConfidenceLevel = string
type_synonym Room = string
type_synonym Difficulty = string

record ReviewContext =
  isCorrect :: bool
  confidence :: ConfidenceLevel
  room :: Room
  difficulty :: Difficulty

text \<open>The four numbers \<^verbatim>\<open>computeNextSchedule\<close> reads from a previous schedule.\<close>

record ScheduleState =
  repetitions :: int
  intervalDays :: int
  easeFactor :: real
  correctStreak :: int

text \<open>\<^verbatim>\<open>ReviewScheduleUpdate\<close>: the same four fields and two more.\<close>

record ReviewScheduleUpdate = ScheduleState +
  nextReviewAt :: int
  lastResult :: int

definition dayMs :: int where
  "dayMs = 24 * 60 * 60 * 1000"


section \<open>The scheduling algorithm\<close>

definition mapQuality :: "bool \<Rightarrow> ConfidenceLevel \<Rightarrow> int" where
  "mapQuality correct conf =
     (if correct then
        (if conf = ''certeza'' then 5
         else if conf = ''duvida'' then 4
         else if conf = ''chute'' then 3
         else 4)
      else (if conf = ''certeza'' then 1 else 2))"

definition getRoomMultiplier :: "Room \<Rightarrow> real" where
  "getRoomMultiplier r =
     (if r = ''triagem'' then 0.6
      else if r = ''vermelha'' then 0.7
      else if r = ''amarela'' then 0.85
      else if r = ''verde'' then 1.15
      else 1.0)"

definition getDifficultyMultiplier :: "Difficulty \<Rightarrow> real" where
  "getDifficultyMultiplier d =
     (if d = ''hard'' then 0.85
      else if d = ''easy'' then 1.1
      else if d = ''medium'' then 1.0
      else 1.0)"

definition newEF_raw :: "real \<Rightarrow> int \<Rightarrow> real" where
  "newEF_raw currentEF quality =
     currentEF + (0.1 - (5 - of_int quality) * (0.08 + (5 - of_int quality) * 0.02))"

definition updateEaseFactor :: "real \<Rightarrow> int \<Rightarrow> real" where
  "updateEaseFactor currentEF quality = min 2.6 (max 1.3 (newEF_raw currentEF quality))"

definition calculateBaseInterval :: "int \<Rightarrow> int \<Rightarrow> real \<Rightarrow> int \<Rightarrow> int" where
  "calculateBaseInterval reps previousInterval ef quality =
     (if quality < 3 then 1
      else if reps = 0 then 1
      else if reps = 1 then 6
      else Math_round (of_int previousInterval * ef))"

definition applyContextualAdjustments :: "real \<Rightarrow> ReviewContext \<Rightarrow> int \<Rightarrow> int" where
  "applyContextualAdjustments baseInterval context streak =
     (let quality = mapQuality (isCorrect context) (confidence context);
          roomMultiplier = getRoomMultiplier (room context);
          difficultyMultiplier = getDifficultyMultiplier (difficulty context);
          adjustedInterval =
            max 1 (Math_round (baseInterval * roomMultiplier * difficultyMultiplier))
      in if isCorrect context \<and> quality \<ge> 4 \<and> streak \<ge> 3
         then Math_round (of_int adjustedInterval * 1.1)
         else adjustedInterval)"

text \<open>
  \<^verbatim>\<open>computeNextSchedule\<close> reads the clock once (\<^verbatim>\<open>Date.now()\<close>); the reading is the
  first argument. An absent previous schedule (\<^verbatim>\<open>null\<close>) is \<^term>\<open>None\<close>.
\<close>

definition computeNextSchedule ::
  "int \<Rightarrow> ScheduleState option \<Rightarrow> ReviewContext \<Rightarrow> ReviewScheduleUpdate" where
  "computeNextSchedule now previousSchedule context =
     (let quality = mapQuality (isCorrect context) (confidence context);
          prevReps = (case previousSchedule of None \<Rightarrow> 0 | Some p \<Rightarrow> repetitions p);
          prevInterval = (case previousSchedule of None \<Rightarrow> 1 | Some p \<Rightarrow> intervalDays p);
          prevEF = (case previousSchedule of None \<Rightarrow> 2.5 | Some p \<Rightarrow> easeFactor p);
          prevStreak = (case previousSchedule of None \<Rightarrow> 0 | Some p \<Rightarrow> correctStreak p);
          newEF = updateEaseFactor prevEF quality;
          newRepetitions = (if quality < 3 then 0 else prevReps + 1);
          baseInterval = calculateBaseInterval newRepetitions prevInterval newEF quality;
          newStreak = (if isCorrect context then prevStreak + 1 else 0);
          finalInterval = applyContextualAdjustments (of_int baseInterval) context newStreak
      in \<lparr> repetitions = newRepetitions,
           intervalDays = finalInterval,
           easeFactor = newEF,
           correctStreak = newStreak,
           nextReviewAt = now + finalInterval * dayMs,
           lastResult = quality \<rparr>)"


section \<open>Urgency classification\<close>

datatype UrgencyLevel = Overdue | DueToday | DueSoon | Scheduled

text \<open>
  \<^verbatim>\<open>getDaysUntilReview\<close> reads the clock once (\<^verbatim>\<open>new Date()\<close>); the reading is the
  first argument, the due timestamp the second, both in milliseconds.
\<close>

definition getDaysUntilReview :: "int \<Rightarrow> int \<Rightarrow> int" where
  "getDaysUntilReview now due = Math_ceil (of_int (due - now) / of_int dayMs)"

definition getUrgencyLevel :: "int \<Rightarrow> int \<Rightarrow> UrgencyLevel" where
  "getUrgencyLevel now due =
     (let daysUntil = getDaysUntilReview now due
      in if daysUntil < 0 then Overdue
         else if daysUntil = 0 then DueToday
         else if daysUntil \<le> 2 then DueSoon
         else Scheduled)"


section \<open>The schedule store\<close>

text \<open>
  Modelled from the spec: the persistence store behind \<^verbatim>\<open>getDBOrThrow()\<close> (the module
  \<^verbatim>\<open>../singleton\<close> is not part of the source). It is the generic record store of the
  specification: the table \<^verbatim>\<open>review_schedules\<close> is a list of rows in insertion order, a
  \<^verbatim>\<open>SELECT ... WHERE\<close> returns the matching rows in that order, an \<^verbatim>\<open>INSERT\<close> appends
  a row. A row has the sixteen columns of the \<^verbatim>\<open>INSERT\<close> statement of
  \<^verbatim>\<open>upsertQuestionSchedule\<close>, in that order. Timestamps are stored as ISO-8601 strings of
  millisecond precision; such a string and its order are represented by the number of
  milliseconds it denotes. The database is initialised (\<^verbatim>\<open>getDBOrThrow\<close> does not
  throw), and the \<^verbatim>\<open>SELECT\<close> and \<^verbatim>\<open>INSERT\<close> statements do not fail.
\<close>

record ReviewRow =
  col_id :: string
  col_item_type :: string
  col_item_id :: string
  col_topic_id :: string
  col_subject_id :: "string option"
  col_repetitions :: int
  col_interval_days :: int
  col_ease_factor :: real
  col_correct_streak :: int
  col_last_review :: "int option"
  col_next_review_at :: int
  col_last_result :: int
  col_last_confidence :: string
  col_last_room :: "string option"
  col_created_at :: int
  col_updated_at :: int

text \<open>The table \<^verbatim>\<open>study_topics\<close>, of which only \<^verbatim>\<open>id\<close> and \<^verbatim>\<open>subject_id\<close> are read.\<close>

record DB =
  review_schedules :: "ReviewRow list"
  study_topics :: "(string \<times> string option) list"

text \<open>The two fields of a \<^verbatim>\<open>Question\<close> that the store layer reads.\<close>

record Question =
  question_id :: string
  question_topicId :: string

text \<open>The \<^verbatim>\<open>ReviewSchedule\<close> object that \<^verbatim>\<open>upsertQuestionSchedule\<close> returns.\<close>

record ReviewSchedule = ReviewScheduleUpdate +
  schedule_id :: string
  itemType :: string
  itemId :: string
  topicId :: string
  subjectId :: "string option"
  lastReview :: "int option"
  lastConfidence :: ConfidenceLevel
  lastRoom :: Room
  createdAt :: int
  updatedAt :: int

text \<open>
  What one call of \<^verbatim>\<open>upsertQuestionSchedule\<close> reads from its surroundings, in the order
  of the reads: the clock inside \<^verbatim>\<open>computeNextSchedule\<close> (\<^verbatim>\<open>Date.now()\<close>), the clock
  for \<^verbatim>\<open>now\<close> (\<^verbatim>\<open>new Date().toISOString()\<close>), and the identifier built from
  \<^verbatim>\<open>Date.now()\<close> and \<^verbatim>\<open>Math.random()\<close> for a new record.
\<close>

record UpsertEnv =
  clockCompute :: int
  clockUpsert :: int
  freshId :: string

definition selectExisting :: "DB \<Rightarrow> string \<Rightarrow> ReviewRow option" where
  "selectExisting db qid =
     find (\<lambda>r. col_item_type r = ''question'' \<and> col_item_id r = qid) (review_schedules db)"

text \<open>
  The row found by the \<^verbatim>\<open>SELECT\<close> is fetched with \<^verbatim>\<open>stmt.getAsObject()\<close>. The engine is
  sql.js (\<^verbatim>\<open>contexts/DBProvider.tsx\<close>), whose \<^verbatim>\<open>getAsObject\<close> gives an object keyed by
  column name; the same file reads such an object as \<^verbatim>\<open>row.item_id\<close> in
  \<^verbatim>\<open>getDueQuestionIds\<close>, and \<^verbatim>\<open>db/crud/questions.ts\<close> as \<^verbatim>\<open>row.id\<close>,
  \<^verbatim>\<open>row.topic_id\<close>. No column is named by a number, so the reads \<^verbatim>\<open>existing[0]\<close>,
  \<^verbatim>\<open>existing[5]\<close> to \<^verbatim>\<open>existing[8]\<close> and \<^verbatim>\<open>existing[14]\<close> are \<^verbatim>\<open>undefined\<close>
  whatever the row holds. Hence, for a question with a stored schedule:

  \<^item> the object \<^verbatim>\<open>previousSchedule\<close> has four undefined fields, and the
    \<^verbatim>\<open>?? default\<close> of \<^verbatim>\<open>computeNextSchedule\<close> replaces each by its default, as it does
    for \<^verbatim>\<open>null\<close>: the next schedule is computed from no previous schedule;

  \<^item> \<^verbatim>\<open>scheduleId\<close> is undefined and is the last parameter of the \<^verbatim>\<open>UPDATE\<close>.
    sql.js binds strings, numbers, booleans, \<^verbatim>\<open>null\<close> and byte arrays and throws on any
    other value, so \<^verbatim>\<open>db.exec\<close> throws while binding, before the statement runs: no row
    is written and the function returns nothing.
\<close>

datatype UpsertError = BindUndefined

definition previousScheduleOf :: "ReviewRow option \<Rightarrow> ScheduleState option" where
  "previousScheduleOf existing = (case existing of None \<Rightarrow> None | Some e \<Rightarrow> None)"

text \<open>
  \<^verbatim>\<open>topicResult[0]?.values[0]?.[0] as string || null\<close>: the subject of the first topic
  row with the given id; no row, a NULL and an empty string all give \<^verbatim>\<open>null\<close>.
\<close>

definition topicSubject :: "DB \<Rightarrow> string \<Rightarrow> string option" where
  "topicSubject db tid =
     (case find (\<lambda>t. fst t = tid) (study_topics db) of
        None \<Rightarrow> None
      | Some t \<Rightarrow> (case snd t of
                    None \<Rightarrow> None
                  | Some s \<Rightarrow> if s = [] then None else Some s))"

definition insertRow ::
  "string \<Rightarrow> Question \<Rightarrow> ReviewSchedule \<Rightarrow> string option \<Rightarrow> ReviewRow" where
  "insertRow scheduleId question schedule subj =
     \<lparr> col_id = scheduleId,
       col_item_type = ''question'',
       col_item_id = question_id question,
       col_topic_id = question_topicId question,
       col_subject_id = subj,
       col_repetitions = repetitions schedule,
       col_interval_days = intervalDays schedule,
       col_ease_factor = easeFactor schedule,
       col_correct_streak = correctStreak schedule,
       col_last_review = lastReview schedule,
       col_next_review_at = nextReviewAt schedule,
       col_last_result = lastResult schedule,
       col_last_confidence = lastConfidence schedule,
       col_last_room = Some (lastRoom schedule),
       col_created_at = createdAt schedule,
       col_updated_at = updatedAt schedule \<rparr>"

text \<open>
  The result is the outcome of the call, an exception or the returned schedule, together
  with the store after the call. The \<^verbatim>\<open>schedule\<close> object is written out in the branch
  that returns it; in the other branch the code builds it too, with an undefined
  \<^verbatim>\<open>id\<close>, and loses it to the exception.
\<close>

definition upsertQuestionSchedule ::
  "UpsertEnv \<Rightarrow> DB \<Rightarrow> Question \<Rightarrow> ReviewContext
     \<Rightarrow> (UpsertError + ReviewSchedule) \<times> DB" where
  "upsertQuestionSchedule env db question context =
     (let existing = selectExisting db (question_id question);
          previousSchedule = previousScheduleOf existing;
          nextSchedule = computeNextSchedule (clockCompute env) previousSchedule context;
          now = clockUpsert env;
          subj = topicSubject db (question_topicId question)
      in case existing of
           Some e \<Rightarrow> (Inl BindUndefined, db)
         | None \<Rightarrow>
             (let scheduleId = freshId env;
                  schedule =
                    \<lparr> repetitions = repetitions nextSchedule,
                      intervalDays = intervalDays nextSchedule,
                      easeFactor = easeFactor nextSchedule,
                      correctStreak = correctStreak nextSchedule,
                      nextReviewAt = nextReviewAt nextSchedule,
                      lastResult = lastResult nextSchedule,
                      schedule_id = scheduleId,
                      itemType = ''question'',
                      itemId = question_id question,
                      topicId = question_topicId question,
                      subjectId = None,
                      lastReview = Some now,
                      lastConfidence = confidence context,
                      lastRoom = room context,
                      createdAt = now,
                      updatedAt = now \<rparr>
              in (Inr schedule,
                  db \<lparr> review_schedules :=
                         review_schedules db
                           @ [insertRow scheduleId question schedule subj] \<rparr>)))"



section \<open>Review statistics\<close>

record RoomCounts =
  triagem :: nat
  vermelha :: nat
  amarela :: nat
  verde :: nat

record StreakData =
  averageStreak :: real
  longestStreak :: int

record ReviewStats =
  totalDue :: nat
  dueByRoom :: RoomCounts
  dueBySubject :: "string \<rightharpoonup> nat"
  streakData :: StreakData
  nextReviewDate :: "int option"

text \<open>
  The \<^verbatim>\<open>WHERE\<close> clause of \<^verbatim>\<open>getReviewStats\<close>. The optional argument
  \<^verbatim>\<open>subjectIds\<close> restricts the rows only when it is present and not empty; a row whose
  \<^verbatim>\<open>subject_id\<close> is NULL is in no \<^verbatim>\<open>IN\<close> list.
\<close>

definition subjectMatches :: "string list option \<Rightarrow> ReviewRow \<Rightarrow> bool" where
  "subjectMatches subjectIds r =
     (case subjectIds of
        None \<Rightarrow> True
      | Some ids \<Rightarrow>
          if length ids > 0
          then (case col_subject_id r of None \<Rightarrow> False | Some s \<Rightarrow> s \<in> set ids)
          else True)"

definition dueSchedules :: "int \<Rightarrow> string list option \<Rightarrow> DB \<Rightarrow> ReviewRow list" where
  "dueSchedules now subjectIds db =
     filter (\<lambda>r. col_item_type r = ''question'' \<and> col_next_review_at r \<le> now
                 \<and> subjectMatches subjectIds r)
       (review_schedules db)"

text \<open>
  \<^verbatim>\<open>GROUP BY rs.last_room, rs.subject_id\<close>: the rows are split into the classes of equal
  (room, subject) pairs, NULLs being equal to each other. A class is never empty: it is
  kept as its first row and the rest. The classes come in the order of their first rows;
  SQL fixes no order, and the loop over them computes sums, a maximum and a minimum.
\<close>

definition groupKey :: "ReviewRow \<Rightarrow> string option \<times> string option" where
  "groupKey r = (col_last_room r, col_subject_id r)"

function groupRows :: "ReviewRow list \<Rightarrow> (ReviewRow \<times> ReviewRow list) list" where
  "groupRows [] = []"
| "groupRows (r # rs) =
     (r, filter (\<lambda>x. groupKey x = groupKey r) rs)
       # groupRows (filter (\<lambda>x. groupKey x \<noteq> groupKey r) rs)"
  by pat_completeness auto
termination
  by (relation "measure length") (auto simp: less_Suc_eq_le)

text \<open>One row of the query result: the aggregates of one class.\<close>

record StatsRow =
  total_due :: nat
  last_room :: "string option"
  subject_id :: "string option"
  avg_streak :: real
  max_streak :: int
  next_review :: int

definition aggregateGroup :: "ReviewRow \<times> ReviewRow list \<Rightarrow> StatsRow" where
  "aggregateGroup g =
     (let r = fst g; rs = snd g
      in \<lparr> total_due = length (r # rs),
           last_room = col_last_room r,
           subject_id = col_subject_id r,
           avg_streak = of_int (sum_list (map col_correct_streak (r # rs)))
                          / of_nat (length (r # rs)),
           max_streak = fold max (map col_correct_streak rs) (col_correct_streak r),
           next_review = fold min (map col_next_review_at rs) (col_next_review_at r) \<rparr>)"

definition statsQuery :: "int \<Rightarrow> string list option \<Rightarrow> DB \<Rightarrow> StatsRow list" where
  "statsQuery now subjectIds db = map aggregateGroup (groupRows (dueSchedules now subjectIds db))"

text \<open>
  \<^verbatim>\<open>if (room && stats.dueByRoom[room] !== undefined) stats.dueByRoom[room] += due\<close>:
  one of the four counters grows when the tag is one of the four tier names; for a NULL,
  an empty or any other tag none of the four counters changes.
\<close>

definition bumpRoom :: "string option \<Rightarrow> nat \<Rightarrow> RoomCounts \<Rightarrow> RoomCounts" where
  "bumpRoom tag due c =
     (case tag of
        None \<Rightarrow> c
      | Some r \<Rightarrow>
          if r = ''triagem'' then c \<lparr> triagem := triagem c + due \<rparr>
          else if r = ''vermelha'' then c \<lparr> vermelha := vermelha c + due \<rparr>
          else if r = ''amarela'' then c \<lparr> amarela := amarela c + due \<rparr>
          else if r = ''verde'' then c \<lparr> verde := verde c + due \<rparr>
          else c)"

definition bumpSubject :: "string option \<Rightarrow> nat \<Rightarrow> (string \<rightharpoonup> nat) \<Rightarrow> (string \<rightharpoonup> nat)" where
  "bumpSubject tag due m =
     (case tag of
        None \<Rightarrow> m
      | Some s \<Rightarrow>
          if s = [] then m
          else m(s \<mapsto> (case m s of None \<Rightarrow> 0 | Some n \<Rightarrow> n) + due))"

text \<open>The state of the loop: the statistics and the two local counters.\<close>

record StatsLoop =
  stats :: ReviewStats
  totalStreak :: real
  groupCount :: nat

definition statsStep :: "StatsRow \<Rightarrow> StatsLoop \<Rightarrow> StatsLoop" where
  "statsStep row st =
     (let s = stats st;
          due = total_due row;
          longest = longestStreak (streakData s)
      in \<lparr> stats = s
             \<lparr> totalDue := totalDue s + due,
               dueByRoom := bumpRoom (last_room row) due (dueByRoom s),
               dueBySubject := bumpSubject (subject_id row) due (dueBySubject s),
               streakData := (streakData s)
                 \<lparr> longestStreak := (if max_streak row > longest then max_streak row
                                      else longest) \<rparr>,
               nextReviewDate :=
                 (case nextReviewDate s of
                    None \<Rightarrow> Some (next_review row)
                  | Some d \<Rightarrow> if next_review row < d then Some (next_review row)
                              else Some d) \<rparr>,
           totalStreak = totalStreak st + avg_streak row,
           groupCount = groupCount st + 1 \<rparr>)"

definition initialStats :: ReviewStats where
  "initialStats =
     \<lparr> totalDue = 0,
       dueByRoom = \<lparr> triagem = 0, vermelha = 0, amarela = 0, verde = 0 \<rparr>,
       dueBySubject = Map.empty,
       streakData = \<lparr> averageStreak = 0, longestStreak = 0 \<rparr>,
       nextReviewDate = None \<rparr>"

definition statsLoop :: "StatsRow list \<Rightarrow> StatsLoop" where
  "statsLoop rows =
     fold statsStep rows \<lparr> stats = initialStats, totalStreak = 0, groupCount = 0 \<rparr>"

text \<open>
  \<^verbatim>\<open>getReviewStats\<close> reads the clock once (\<^verbatim>\<open>new Date().toISOString()\<close>); the reading
  is the first argument.
\<close>

definition getReviewStats :: "int \<Rightarrow> string list option \<Rightarrow> DB \<Rightarrow> ReviewStats" where
  "getReviewStats now subjectIds db =
     (let st = statsLoop (statsQuery now subjectIds db);
          s = stats st
      in if groupCount st > 0
         then s \<lparr> streakData := (streakData s)
                    \<lparr> averageStreak := totalStreak st / of_nat (groupCount st) \<rparr> \<rparr>
         else s)"

text \<open>The arithmetic mean of the correct streaks of a list of schedules.\<close>

definition meanStreak :: "ReviewRow list \<Rightarrow> real" where
  "meanStreak rs = of_int (sum_list (map col_correct_streak rs)) / of_nat (length rs)"

definition roomTotal :: "RoomCounts \<Rightarrow> nat" where
  "roomTotal c = triagem c + vermelha c + amarela c + verde c"


section \<open>Example data\<close>

text \<open>Two clock scenarios: both readings equal, and the second one millisecond later.\<close>

definition env0 :: UpsertEnv where
  "env0 = \<lparr> clockCompute = 1000, clockUpsert = 1000, freshId = ''schedule_1000_k3x9q2m7p'' \<rparr>"

definition envLate :: UpsertEnv where
  "envLate = \<lparr> clockCompute = 1000, clockUpsert = 1001, freshId = ''schedule_1001_k3x9q2m7p'' \<rparr>"

definition emptyDB :: DB where
  "emptyDB = \<lparr> review_schedules = [], study_topics = [] \<rparr>"

definition q1 :: Question where
  "q1 = \<lparr> question_id = ''q1'', question_topicId = ''t1'' \<rparr>"

definition ctxGood :: ReviewContext where
  "ctxGood =
     \<lparr> isCorrect = True, confidence = ''certeza'', room = ''verde'', difficulty = ''easy'' \<rparr>"

definition ctxBad :: ReviewContext where
  "ctxBad =
     \<lparr> isCorrect = False, confidence = ''certeza'', room = ''vermelha'', difficulty = ''hard'' \<rparr>"

text \<open>A due question schedule with a given id, question, tier tag and correct streak.\<close>

definition fixtureRow :: "string \<Rightarrow> string \<Rightarrow> string option \<Rightarrow> int \<Rightarrow> ReviewRow" where
  "fixtureRow sid qid tag streak =
     \<lparr> col_id = sid, col_item_type = ''question'', col_item_id = qid, col_topic_id = ''t1'',
       col_subject_id = None, col_repetitions = 1, col_interval_days = 1,
       col_ease_factor = 2.5, col_correct_streak = streak, col_last_review = Some 0,
       col_next_review_at = 500, col_last_result = 4, col_last_confidence = ''duvida'',
       col_last_room = tag, col_created_at = 0, col_updated_at = 0 \<rparr>"


definition dbStreaks :: DB where
  "dbStreaks =
     \<lparr> review_schedules =
         [fixtureRow ''s1'' ''q1'' (Some ''triagem'') 0,
          fixtureRow ''s2'' ''q2'' (Some ''triagem'') 0,
          fixtureRow ''s3'' ''q3'' (Some ''verde'') 3],
       study_topics = [] \<rparr>"

definition dbUntagged :: DB where
  "dbUntagged =
     \<lparr> review_schedules =
         [fixtureRow ''s1'' ''q1'' (Some ''triagem'') 0,
          fixtureRow ''s2'' ''q2'' None 2],
       study_topics = [] \<rparr>"


section \<open>Evaluation lemmas for the algorithm\<close>

lemma mapQuality_range: "1 \<le> mapQuality c k \<and> mapQuality c k \<le> 5"
  by (simp add: mapQuality_def)

lemma mapQuality_low_iff: "mapQuality c k < 3 \<longleftrightarrow> \<not> c"
  by (simp add: mapQuality_def)

lemma mapQuality_certeza: "mapQuality True ''certeza'' = 5"
  by (simp add: mapQuality_def)

lemma getRoomMultiplier_verde: "getRoomMultiplier ''verde'' = 1.15"
  by (simp add: getRoomMultiplier_def)

lemma getDifficultyMultiplier_easy: "getDifficultyMultiplier ''easy'' = 1.1"
  by (simp add: getDifficultyMultiplier_def)

lemma updateEaseFactor_2_5: "updateEaseFactor 2 5 = 21 / 10"
  by (simp add: updateEaseFactor_def newEF_raw_def)

lemma calculateBaseInterval_3_10: "calculateBaseInterval 3 10 (21 / 10) 5 = 21"
  by (simp add: calculateBaseInterval_def Math_round_def)

lemma adjust_21_verde_easy:
  "applyContextualAdjustments 21
     \<lparr> isCorrect = True, confidence = ''certeza'', room = ''verde'', difficulty = ''easy'' \<rparr> 5
   = 30"
  by (simp add: applyContextualAdjustments_def mapQuality_certeza getRoomMultiplier_verde
      getDifficultyMultiplier_easy Math_round_def Let_def)

lemma calculateBaseInterval_low: "calculateBaseInterval r i e (mapQuality False k) = 1"
  by (simp add: calculateBaseInterval_def mapQuality_def)

text \<open>
  Every product of a tier multiplier and a difficulty multiplier lies between 0.51 and
  1.265, so a base interval of one day stays one day after rounding.
\<close>

lemma unit_base_rounds_to_one:
  "Math_round (1 * getRoomMultiplier r * getDifficultyMultiplier d) = 1"
  by (simp add: getRoomMultiplier_def getDifficultyMultiplier_def Math_round_def)

lemma adjust_unit_incorrect:
  "\<not> isCorrect ctx \<Longrightarrow> applyContextualAdjustments 1 ctx s = 1"
  using unit_base_rounds_to_one [of "room ctx" "difficulty ctx"]
  by (simp add: applyContextualAdjustments_def Let_def)

lemma applyContextualAdjustments_ge_1: "1 \<le> applyContextualAdjustments b ctx s"
  unfolding applyContextualAdjustments_def Let_def
  by (auto simp: Math_round_def)

lemma intervalDays_ge_1: "1 \<le> intervalDays (computeNextSchedule now prev ctx)"
  by (simp add: computeNextSchedule_def Let_def applyContextualAdjustments_ge_1)

lemma repetitions_computeNextSchedule:
  "repetitions (computeNextSchedule now prev ctx) =
     (if mapQuality (isCorrect ctx) (confidence ctx) < 3 then 0
      else (case prev of None \<Rightarrow> 0 | Some p \<Rightarrow> repetitions p) + 1)"
  by (simp add: computeNextSchedule_def Let_def)

lemma correctStreak_computeNextSchedule:
  "correctStreak (computeNextSchedule now prev ctx) =
     (if isCorrect ctx then (case prev of None \<Rightarrow> 0 | Some p \<Rightarrow> correctStreak p) + 1
      else 0)"
  by (simp add: computeNextSchedule_def Let_def)

lemma nextReviewAt_computeNextSchedule:
  "nextReviewAt (computeNextSchedule now prev ctx) =
     now + intervalDays (computeNextSchedule now prev ctx) * dayMs"
  by (simp add: computeNextSchedule_def Let_def)

lemma low_quality_interval:
  assumes "mapQuality (isCorrect ctx) (confidence ctx) < 3"
  shows "intervalDays (computeNextSchedule now prev ctx) = 1"
proof -
  from assms have "\<not> isCorrect ctx"
    by (simp add: mapQuality_low_iff)
  then show ?thesis
    by (simp add: computeNextSchedule_def Let_def calculateBaseInterval_low
        adjust_unit_incorrect)
qed

lemma dayMs_pos: "0 < dayMs"
  by (simp add: dayMs_def)

text \<open>
  In milliseconds: a review is overdue once it is a full day late, due today from less
  than a day late up to the present instant, due soon up to two days ahead.
\<close>

lemma days_negative_iff: "getDaysUntilReview now due < 0 \<longleftrightarrow> due - now \<le> - dayMs"
proof -
  have "getDaysUntilReview now due < 0
        \<longleftrightarrow> real_of_int (due - now) / real_of_int dayMs \<le> - 1"
    by (simp add: getDaysUntilReview_def Math_ceil_def ceiling_less_iff)
  also have "\<dots> \<longleftrightarrow> real_of_int (due - now) \<le> - real_of_int dayMs"
    using dayMs_pos by (simp add: pos_divide_le_eq)
  also have "\<dots> \<longleftrightarrow> due - now \<le> - dayMs"
    by linarith
  finally show ?thesis .
qed

lemma days_le_iff: "getDaysUntilReview now due \<le> k \<longleftrightarrow> due - now \<le> k * dayMs"
proof -
  have "getDaysUntilReview now due \<le> k
        \<longleftrightarrow> real_of_int (due - now) / real_of_int dayMs \<le> real_of_int k"
    by (simp add: getDaysUntilReview_def Math_ceil_def ceiling_le_iff)
  also have "\<dots> \<longleftrightarrow> real_of_int (due - now) \<le> real_of_int (k * dayMs)"
    using dayMs_pos by (simp add: pos_divide_le_eq)
  also have "\<dots> \<longleftrightarrow> due - now \<le> k * dayMs"
    by (simp only: of_int_le_iff)
  finally show ?thesis .
qed

lemma getUrgencyLevel_by_ms:
  "getUrgencyLevel now due =
     (if due - now \<le> - dayMs then Overdue
      else if due - now \<le> 0 then DueToday
      else if due - now \<le> 2 * dayMs then DueSoon
      else Scheduled)"
proof -
  have a: "getDaysUntilReview now due < 0 \<longleftrightarrow> due - now \<le> - dayMs"
    by (rule days_negative_iff)
  have b: "getDaysUntilReview now due \<le> 0 \<longleftrightarrow> due - now \<le> 0"
    using days_le_iff [of now due 0] by simp
  have c: "getDaysUntilReview now due \<le> 2 \<longleftrightarrow> due - now \<le> 2 * dayMs"
    using days_le_iff [of now due 2] by simp
  have d: "getDaysUntilReview now due = 0
           \<longleftrightarrow> getDaysUntilReview now due \<le> 0 \<and> \<not> getDaysUntilReview now due < 0"
    by auto
  show ?thesis
    unfolding getUrgencyLevel_def Let_def d a b c by auto
qed


section \<open>Properties of the scheduling algorithm\<close>

text \<open>
  C1 (Scenario B). From the previous schedule repetitions 2, interval 10 days, ease factor
  2.0, streak 4, a correct answer given with certainty on a mastered (\<^verbatim>\<open>verde\<close>), easy item
  yields quality 5, ease factor 2.1, repetitions 3, streak 5 and an interval of 30 days;
  the next review is due 30 days after the clock reading.
\<close>

theorem C1_scenario_B:
  "computeNextSchedule now
     (Some \<lparr> repetitions = 2, intervalDays = 10, easeFactor = 2.0, correctStreak = 4 \<rparr>)
     \<lparr> isCorrect = True, confidence = ''certeza'', room = ''verde'', difficulty = ''easy'' \<rparr>
   = \<lparr> repetitions = 3, intervalDays = 30, easeFactor = 2.1, correctStreak = 5,
       nextReviewAt = now + 30 * dayMs, lastResult = 5 \<rparr>"
  unfolding computeNextSchedule_def Let_def
  by (simp add: mapQuality_certeza updateEaseFactor_2_5 calculateBaseInterval_3_10
      adjust_21_verde_easy)

text \<open>
  C2. Whatever the previous schedule (absent, or any repetitions, interval, ease factor and
  streak) and whatever the tier and difficulty tags, a context whose quality is below 3
  gives repetitions 0 and an interval of exactly 1 day.
\<close>

theorem C2_low_quality_resets:
  assumes "mapQuality (isCorrect ctx) (confidence ctx) < 3"
  shows "repetitions (computeNextSchedule now prev ctx) = 0
       \<and> intervalDays (computeNextSchedule now prev ctx) = 1"
  using assms by (simp add: repetitions_computeNextSchedule low_quality_interval)

theorem C2_low_quality_resets_witness:
  "mapQuality False ''certeza'' < 3
   \<and> repetitions (computeNextSchedule 0
        (Some \<lparr> repetitions = 7, intervalDays = 40, easeFactor = 2.5, correctStreak = 9 \<rparr>)
        \<lparr> isCorrect = False, confidence = ''certeza'', room = ''verde'',
          difficulty = ''easy'' \<rparr>) = 0
   \<and> intervalDays (computeNextSchedule 0
        (Some \<lparr> repetitions = 7, intervalDays = 40, easeFactor = 2.5, correctStreak = 9 \<rparr>)
        \<lparr> isCorrect = False, confidence = ''certeza'', room = ''verde'',
          difficulty = ''easy'' \<rparr>) = 1"
  using C2_low_quality_resets
    [of "\<lparr> isCorrect = False, confidence = ''certeza'', room = ''verde'',
           difficulty = ''easy'' \<rparr>"
        0 "Some \<lparr> repetitions = 7, intervalDays = 40, easeFactor = 2.5, correctStreak = 9 \<rparr>"]
  by (simp add: mapQuality_def)

text \<open>
  C3. For a quality from 1 to 5 and an ease factor between 1.3 and 2.6, the updated ease
  factor is again between 1.3 and 2.6. The clamp saturates: the result is the bound that
  the unclamped value crossed, and the unclamped value itself when it crossed none.
\<close>

theorem C3_ease_factor_clamped:
  assumes "1 \<le> quality" and "quality \<le> 5" and "1.3 \<le> ef" and "ef \<le> 2.6"
  shows "1.3 \<le> updateEaseFactor ef quality \<and> updateEaseFactor ef quality \<le> 2.6
       \<and> updateEaseFactor ef quality =
           (if newEF_raw ef quality < 1.3 then 1.3
            else if newEF_raw ef quality > 2.6 then 2.6
            else newEF_raw ef quality)"
  by (simp add: updateEaseFactor_def min_def max_def)

theorem C3_ease_factor_clamped_witness:
  "(1::int) \<le> 1 \<and> (1::int) \<le> 5 \<and> (1.3::real) \<le> 1.3 \<and> (1.3::real) \<le> 2.6
   \<and> 1.3 \<le> updateEaseFactor 1.3 1 \<and> updateEaseFactor 1.3 1 \<le> 2.6
   \<and> updateEaseFactor 1.3 1 = 1.3 \<and> newEF_raw 1.3 1 < 1.3"
  using C3_ease_factor_clamped [of 1 "1.3"]
  by (simp add: newEF_raw_def)

text \<open>
  C4. The adjusted interval is an integer of at least 1 for every base interval, context
  and streak. This covers the streak bonus, whose multiplication by 1.1 and rounding come
  after the \<^verbatim>\<open>Math.max(1, ...)\<close>: an integer of at least 1 times 1.1 rounds to at
  least 1.
\<close>

theorem C4_adjusted_at_least_one:
  assumes "1 \<le> baseInterval"
  shows "1 \<le> applyContextualAdjustments baseInterval context streak"
  by (rule applyContextualAdjustments_ge_1)

theorem C4_adjusted_at_least_one_witness:
  "(1::real) \<le> 1
   \<and> 1 \<le> applyContextualAdjustments 1
        \<lparr> isCorrect = True, confidence = ''certeza'', room = ''triagem'',
          difficulty = ''hard'' \<rparr> 3
   \<and> applyContextualAdjustments 1
        \<lparr> isCorrect = True, confidence = ''certeza'', room = ''triagem'',
          difficulty = ''hard'' \<rparr> 3 = 1"
  using C4_adjusted_at_least_one
    [of 1 "\<lparr> isCorrect = True, confidence = ''certeza'', room = ''triagem'',
              difficulty = ''hard'' \<rparr>" 3]
  by (simp add: applyContextualAdjustments_def mapQuality_def getRoomMultiplier_def
      getDifficultyMultiplier_def Math_round_def Let_def)

text \<open>
  C5. For every due timestamp and clock reading, the days until review are the ceiling of
  the difference divided by one day (86400000 ms), and the urgency level is overdue when
  that number is negative, due today when it is 0, due soon when it is 1 or 2, scheduled
  otherwise. In milliseconds: overdue from a full day late, due today from less than a day
  late up to the present instant, due soon up to two days ahead, scheduled beyond.
\<close>

theorem C5_urgency_by_days:
  "getDaysUntilReview now due = \<lceil>real_of_int (due - now) / 86400000\<rceil>
   \<and> getUrgencyLevel now due =
       (let d = \<lceil>real_of_int (due - now) / 86400000\<rceil>
        in if d < 0 then Overdue
           else if d = 0 then DueToday
           else if d = 1 \<or> d = 2 then DueSoon
           else Scheduled)
   \<and> getUrgencyLevel now due =
       (if due - now \<le> - 86400000 then Overdue
        else if due - now \<le> 0 then DueToday
        else if due - now \<le> 172800000 then DueSoon
        else Scheduled)"
proof -
  have days: "getDaysUntilReview now due = \<lceil>real_of_int (due - now) / 86400000\<rceil>"
    by (simp add: getDaysUntilReview_def Math_ceil_def dayMs_def)
  have level: "getUrgencyLevel now due =
       (let d = getDaysUntilReview now due
        in if d < 0 then Overdue
           else if d = 0 then DueToday
           else if d = 1 \<or> d = 2 then DueSoon
           else Scheduled)"
    by (auto simp add: getUrgencyLevel_def Let_def)
  have ms: "getUrgencyLevel now due =
       (if due - now \<le> - 86400000 then Overdue
        else if due - now \<le> 0 then DueToday
        else if due - now \<le> 172800000 then DueSoon
        else Scheduled)"
    using getUrgencyLevel_by_ms [of now due] by (simp add: dayMs_def)
  show ?thesis
    using days level ms by (simp only: simp_thms)
qed


section \<open>Lemmas about the schedule store\<close>

lemma find_append_cases:
  "find P (xs @ ys) = (case find P xs of None \<Rightarrow> find P ys | Some x \<Rightarrow> Some x)"
  by (induction xs) auto

lemma select_empty: "selectExisting emptyDB qid = None"
  by (simp add: selectExisting_def emptyDB_def)


text \<open>A question with a stored schedule: the call raises and the store is as before.\<close>

lemma upsert_existing:
  assumes "selectExisting db (question_id q) = Some e"
  shows "upsertQuestionSchedule env db q ctx = (Inl BindUndefined, db)"
  using assms by (simp add: upsertQuestionSchedule_def Let_def)

text \<open>
  A question without a stored schedule: one row is appended, holding the schedule computed
  from the defaults, the two clock readings and the fresh identifier.
\<close>

lemma upsert_new:
  assumes "selectExisting db (question_id q) = None"
  shows "\<exists>r. review_schedules (snd (upsertQuestionSchedule env db q ctx))
               = review_schedules db @ [r]
     \<and> col_id r = freshId env
     \<and> col_item_type r = ''question''
     \<and> col_item_id r = question_id q
     \<and> col_repetitions r = repetitions (computeNextSchedule (clockCompute env) None ctx)
     \<and> col_interval_days r = intervalDays (computeNextSchedule (clockCompute env) None ctx)
     \<and> col_correct_streak r
         = correctStreak (computeNextSchedule (clockCompute env) None ctx)
     \<and> col_next_review_at r = nextReviewAt (computeNextSchedule (clockCompute env) None ctx)
     \<and> col_last_review r = Some (clockUpsert env)
     \<and> col_created_at r = clockUpsert env"
  using assms
  by (simp add: upsertQuestionSchedule_def Let_def previousScheduleOf_def insertRow_def)

lemma upsert_topics:
  "study_topics (snd (upsertQuestionSchedule env db q ctx)) = study_topics db"
  by (simp add: upsertQuestionSchedule_def Let_def split: option.split)

text \<open>After a call, raised or not, the question has a stored schedule.\<close>

lemma stored_after_upsert:
  "\<exists>r. selectExisting (snd (upsertQuestionSchedule env db q ctx)) (question_id q) = Some r"
proof (cases "selectExisting db (question_id q)")
  case None
  obtain r where rows: "review_schedules (snd (upsertQuestionSchedule env db q ctx))
                          = review_schedules db @ [r]"
    and "col_item_type r = ''question''" and "col_item_id r = question_id q"
    using upsert_new [OF None, of env ctx] by blast
  then have "selectExisting (snd (upsertQuestionSchedule env db q ctx)) (question_id q)
             = Some r"
    using None by (simp add: selectExisting_def find_append_cases)
  then show ?thesis by blast
next
  case (Some e)
  then show ?thesis
    by (simp add: upsert_existing)
qed

text \<open>
  A new question answered correctly with certainty, the call made twice with the same
  clock readings: the first call stores repetitions 1 and the second leaves them at 1.
\<close>

lemma retry_example:
  "map col_repetitions
     (review_schedules (snd (upsertQuestionSchedule env0 emptyDB q1 ctxGood))) = [1]
   \<and> map col_repetitions
     (review_schedules (snd (upsertQuestionSchedule env0
        (snd (upsertQuestionSchedule env0 emptyDB q1 ctxGood)) q1 ctxGood))) = [1]"
proof -
  define db1 where "db1 = snd (upsertQuestionSchedule env0 emptyDB q1 ctxGood)"
  have good: "\<not> mapQuality (isCorrect ctxGood) (confidence ctxGood) < 3"
    by (simp add: ctxGood_def mapQuality_def)
  have none: "selectExisting emptyDB (question_id q1) = None"
    by (rule select_empty)
  have rs: "review_schedules emptyDB = []"
    by (simp add: emptyDB_def)
  obtain r where rows: "review_schedules db1 = review_schedules emptyDB @ [r]"
    and reps: "col_repetitions r
               = repetitions (computeNextSchedule (clockCompute env0) None ctxGood)"
    using upsert_new [OF none, of env0 ctxGood] unfolding db1_def by blast
  have one: "map col_repetitions (review_schedules db1) = [1]"
    using good by (simp add: rows rs reps repetitions_computeNextSchedule)
  obtain r1 where r1: "selectExisting db1 (question_id q1) = Some r1"
    using stored_after_upsert [of env0 emptyDB q1 ctxGood] unfolding db1_def by blast
  have "snd (upsertQuestionSchedule env0 db1 q1 ctxGood) = db1"
    by (simp add: upsert_existing [OF r1])
  then show ?thesis
    using one unfolding db1_def by simp
qed


section \<open>Properties of the schedule store\<close>

text \<open>
  C6. Two calls in a row with the same question and context leave the store in the state
  that the first call left: the second call finds the schedule stored for the question,
  raises while binding the parameters of its update, and writes nothing. Repetitions,
  correct streak and interval are therefore counted once.
\<close>

theorem C6_retry_leaves_store:
  "snd (upsertQuestionSchedule env2 (snd (upsertQuestionSchedule env1 db q ctx)) q ctx)
     = snd (upsertQuestionSchedule env1 db q ctx)
   \<and> fst (upsertQuestionSchedule env2 (snd (upsertQuestionSchedule env1 db q ctx)) q ctx)
     = Inl BindUndefined"
proof -
  obtain r where "selectExisting (snd (upsertQuestionSchedule env1 db q ctx)) (question_id q)
                  = Some r"
    using stored_after_upsert [of env1 db q ctx] by blast
  then show ?thesis
    by (simp add: upsert_existing)
qed

text \<open>
  C8, as the code has it. A call persists a record only for a question without a stored
  schedule. The stored \<^verbatim>\<open>nextReviewAt\<close> of that record is the clock reading taken inside
  \<^verbatim>\<open>computeNextSchedule\<close> plus the stored interval, hence at least one day after that
  reading. The stored \<^verbatim>\<open>lastReview\<close> is a second clock reading, taken afterwards; the
  next review is at least one day after it whenever that second reading is not later than
  the first. For a question with a stored schedule the call persists nothing.
\<close>

theorem C8_next_review_after_clock:
  "case selectExisting db (question_id q) of
     Some e \<Rightarrow> snd (upsertQuestionSchedule env db q ctx) = db
   | None \<Rightarrow>
       (\<exists>r. review_schedules (snd (upsertQuestionSchedule env db q ctx))
               = review_schedules db @ [r]
          \<and> col_last_review r = Some (clockUpsert env)
          \<and> col_next_review_at r = clockCompute env + col_interval_days r * dayMs
          \<and> clockCompute env + dayMs \<le> col_next_review_at r
          \<and> (clockUpsert env \<le> clockCompute env
               \<longrightarrow> clockUpsert env + dayMs \<le> col_next_review_at r))"
proof (cases "selectExisting db (question_id q)")
  case (Some e)
  then show ?thesis
    by (simp add: upsert_existing)
next
  case None
  obtain r where rows: "review_schedules (snd (upsertQuestionSchedule env db q ctx))
                          = review_schedules db @ [r]"
    and lr: "col_last_review r = Some (clockUpsert env)"
    and nr: "col_next_review_at r
             = nextReviewAt (computeNextSchedule (clockCompute env) None ctx)"
    and iv: "col_interval_days r
             = intervalDays (computeNextSchedule (clockCompute env) None ctx)"
    using upsert_new [OF None, of env ctx] by blast
  have eq: "col_next_review_at r = clockCompute env + col_interval_days r * dayMs"
    by (simp add: nr iv nextReviewAt_computeNextSchedule)
  have "1 \<le> col_interval_days r"
    by (simp add: iv intervalDays_ge_1)
  then have "dayMs \<le> col_interval_days r * dayMs"
    by (simp add: dayMs_def)
  then have ge: "clockCompute env + dayMs \<le> col_next_review_at r"
    using eq by simp
  have "\<exists>r. review_schedules (snd (upsertQuestionSchedule env db q ctx))
               = review_schedules db @ [r]
          \<and> col_last_review r = Some (clockUpsert env)
          \<and> col_next_review_at r = clockCompute env + col_interval_days r * dayMs
          \<and> clockCompute env + dayMs \<le> col_next_review_at r
          \<and> (clockUpsert env \<le> clockCompute env
               \<longrightarrow> clockUpsert env + dayMs \<le> col_next_review_at r)"
    using rows lr eq ge by auto
  then show ?thesis
    using None by simp
qed

theorem C8_next_review_after_clock_witness:
  "selectExisting emptyDB (question_id q1) = None
   \<and> clockUpsert env0 \<le> clockCompute env0
   \<and> (\<exists>r. review_schedules (snd (upsertQuestionSchedule env0 emptyDB q1 ctxBad)) = [r]
        \<and> col_last_review r = Some (clockUpsert env0)
        \<and> clockUpsert env0 + dayMs \<le> col_next_review_at r)"
proof -
  have none: "selectExisting emptyDB (question_id q1) = None"
    by (rule select_empty)
  have a: "clockUpsert env0 \<le> clockCompute env0"
    by (simp add: env0_def)
  have rs: "review_schedules emptyDB = []"
    by (simp add: emptyDB_def)
  show ?thesis
    using C8_next_review_after_clock [where db = emptyDB and q = q1 and env = env0 and ctx = ctxBad]
      none a
    by (auto simp add: rs)
qed

text \<open>
  The claim fails when the clock advances between the two readings and the interval is one
  day: with the first reading at 1000 ms and the second at 1001 ms, an incorrect answer on
  a new question stores \<^verbatim>\<open>lastReview\<close> 1001 and \<^verbatim>\<open>nextReviewAt\<close> 1000 plus one day,
  which is less than 1001 plus one day.
\<close>

theorem C8_clock_counterexample:
  "map col_last_review
     (review_schedules (snd (upsertQuestionSchedule envLate emptyDB q1 ctxBad)))
     = [Some 1001]
   \<and> map col_next_review_at
     (review_schedules (snd (upsertQuestionSchedule envLate emptyDB q1 ctxBad)))
     = [1000 + dayMs]
   \<and> \<not> (1001 + dayMs \<le> 1000 + dayMs)"
proof -
  have none: "selectExisting emptyDB (question_id q1) = None"
    by (rule select_empty)
  have bad: "mapQuality (isCorrect ctxBad) (confidence ctxBad) < 3"
    by (simp add: ctxBad_def mapQuality_def)
  have iv: "intervalDays (computeNextSchedule (clockCompute envLate) None ctxBad) = 1"
    by (rule low_quality_interval [OF bad])
  have c: "clockCompute envLate = 1000" and u: "clockUpsert envLate = 1001"
    by (simp_all add: envLate_def)
  have rs: "review_schedules emptyDB = []"
    by (simp add: emptyDB_def)
  obtain r where rows: "review_schedules (snd (upsertQuestionSchedule envLate emptyDB q1 ctxBad))
                          = review_schedules emptyDB @ [r]"
    and lr: "col_last_review r = Some (clockUpsert envLate)"
    and nr: "col_next_review_at r
             = nextReviewAt (computeNextSchedule (clockCompute envLate) None ctxBad)"
    using upsert_new [OF none, of envLate ctxBad] by blast
  have "col_next_review_at r = 1000 + dayMs"
    using iv by (simp add: nr nextReviewAt_computeNextSchedule c)
  then show ?thesis
    by (simp add: rows rs lr u)
qed




section \<open>Lemmas about the review statistics\<close>

lemma fixtureRow_cols:
  "col_item_type (fixtureRow sid qid tag streak) = ''question''"
  "col_next_review_at (fixtureRow sid qid tag streak) = 500"
  "col_subject_id (fixtureRow sid qid tag streak) = None"
  "col_last_room (fixtureRow sid qid tag streak) = tag"
  "col_correct_streak (fixtureRow sid qid tag streak) = streak"
  by (simp_all add: fixtureRow_def)

lemma getReviewStats_counts:
  "totalDue (getReviewStats now ids db) = totalDue (stats (statsLoop (statsQuery now ids db)))"
  "dueByRoom (getReviewStats now ids db)
     = dueByRoom (stats (statsLoop (statsQuery now ids db)))"
  by (simp_all add: getReviewStats_def Let_def)

text \<open>The total counts every due schedule once: the classes partition the due rows.\<close>

lemma totalDue_fold:
  "totalDue (stats (fold statsStep rows st))
     = totalDue (stats st) + sum_list (map total_due rows)"
  by (induction rows arbitrary: st) (simp_all add: statsStep_def Let_def)

lemma groupRows_sizes:
  "sum_list (map (\<lambda>g. Suc (length (snd g))) (groupRows xs)) = length xs"
proof (induction xs rule: groupRows.induct)
  case 1
  then show ?case by simp
next
  case (2 r rs)
  have "length (filter (\<lambda>x. groupKey x = groupKey r) rs)
        + length (filter (\<lambda>x. groupKey x \<noteq> groupKey r) rs) = length rs"
    by (rule sum_length_filter_compl)
  with 2 show ?case by simp
qed

lemma totalDue_is_length:
  "totalDue (getReviewStats now ids db) = length (dueSchedules now ids db)"
proof -
  have "sum_list (map total_due (statsQuery now ids db))
        = sum_list (map (\<lambda>g. Suc (length (snd g))) (groupRows (dueSchedules now ids db)))"
    by (simp add: statsQuery_def aggregateGroup_def Let_def comp_def)
  then show ?thesis
    by (simp add: getReviewStats_counts statsLoop_def totalDue_fold initialStats_def
        groupRows_sizes)
qed

text \<open>One step of the loop adds the class size to the total and to at most one tier.\<close>

lemma roomTotal_bumpRoom: "roomTotal (bumpRoom tag due c) \<le> roomTotal c + due"
  by (simp add: bumpRoom_def roomTotal_def split: option.split)

lemma statsStep_rooms:
  assumes "roomTotal (dueByRoom (stats st)) \<le> totalDue (stats st)"
  shows "roomTotal (dueByRoom (stats (statsStep row st)))
           \<le> totalDue (stats (statsStep row st))"
proof -
  have "roomTotal (bumpRoom (last_room row) (total_due row) (dueByRoom (stats st)))
          \<le> roomTotal (dueByRoom (stats st)) + total_due row"
    by (rule roomTotal_bumpRoom)
  with assms show ?thesis
    by (simp add: statsStep_def Let_def)
qed

lemma fold_statsStep_rooms:
  "roomTotal (dueByRoom (stats st)) \<le> totalDue (stats st) \<Longrightarrow>
   roomTotal (dueByRoom (stats (fold statsStep rows st)))
     \<le> totalDue (stats (fold statsStep rows st))"
proof (induction rows arbitrary: st)
  case Nil
  then show ?case by simp
next
  case (Cons row rows)
  from Cons.prems have "roomTotal (dueByRoom (stats (statsStep row st)))
      \<le> totalDue (stats (statsStep row st))"
    by (rule statsStep_rooms)
  then show ?case
    using Cons.IH by simp
qed

lemma statsLoop_rooms:
  "roomTotal (dueByRoom (stats (statsLoop rows))) \<le> totalDue (stats (statsLoop rows))"
  unfolding statsLoop_def
  by (rule fold_statsStep_rooms) (simp add: initialStats_def roomTotal_def)

lemma rooms_le_total:
  "roomTotal (dueByRoom (getReviewStats now ids db)) \<le> totalDue (getReviewStats now ids db)"
  by (simp add: getReviewStats_counts statsLoop_rooms)

text \<open>
  What \<^verbatim>\<open>averageStreak\<close> is in general: the mean, over the classes of the query, of the
  mean streak of each class (and 0 when nothing is due).
\<close>

lemma loop_counters_fold:
  "totalStreak (fold statsStep rows st) = totalStreak st + sum_list (map avg_streak rows)
   \<and> groupCount (fold statsStep rows st) = groupCount st + length rows
   \<and> averageStreak (streakData (stats (fold statsStep rows st)))
       = averageStreak (streakData (stats st))"
  by (induction rows arbitrary: st) (simp_all add: statsStep_def Let_def)

lemma avg_streak_aggregateGroup:
  "avg_streak (aggregateGroup g) = meanStreak (fst g # snd g)"
  by (simp add: aggregateGroup_def meanStreak_def Let_def)

lemma averageStreak_mean_of_class_means:
  "averageStreak (streakData (getReviewStats now ids db)) =
     (if groupRows (dueSchedules now ids db) = [] then 0
      else sum_list (map (\<lambda>g. meanStreak (fst g # snd g))
                      (groupRows (dueSchedules now ids db)))
             / of_nat (length (groupRows (dueSchedules now ids db))))"
proof -
  let ?rows = "statsQuery now ids db"
  have t: "totalStreak (statsLoop ?rows) = sum_list (map avg_streak ?rows)"
    and c: "groupCount (statsLoop ?rows) = length ?rows"
    and a: "averageStreak (streakData (stats (statsLoop ?rows))) = 0"
    using loop_counters_fold [of ?rows] by (simp_all add: statsLoop_def initialStats_def)
  have m: "map avg_streak ?rows
           = map (\<lambda>g. meanStreak (fst g # snd g)) (groupRows (dueSchedules now ids db))"
    by (simp add: statsQuery_def avg_streak_aggregateGroup comp_def)
  have l: "length ?rows = length (groupRows (dueSchedules now ids db))"
    by (simp add: statsQuery_def)
  show ?thesis
    by (simp add: getReviewStats_def Let_def t c a m l)
qed

lemma due_dbStreaks:
  "dueSchedules 1000 None dbStreaks =
     [fixtureRow ''s1'' ''q1'' (Some ''triagem'') 0,
      fixtureRow ''s2'' ''q2'' (Some ''triagem'') 0,
      fixtureRow ''s3'' ''q3'' (Some ''verde'') 3]"
  by (simp add: dueSchedules_def dbStreaks_def subjectMatches_def fixtureRow_cols)

lemma query_dbStreaks:
  "statsQuery 1000 None dbStreaks =
     [\<lparr> total_due = 2, last_room = Some ''triagem'', subject_id = None, avg_streak = 0,
        max_streak = 0, next_review = 500 \<rparr>,
      \<lparr> total_due = 1, last_room = Some ''verde'', subject_id = None, avg_streak = 3,
        max_streak = 3, next_review = 500 \<rparr>]"
  by (simp add: statsQuery_def due_dbStreaks groupKey_def aggregateGroup_def fixtureRow_cols)

lemma loop_dbStreaks:
  "totalStreak (statsLoop (statsQuery 1000 None dbStreaks)) = 3
   \<and> groupCount (statsLoop (statsQuery 1000 None dbStreaks)) = 2"
  by (simp add: query_dbStreaks statsLoop_def statsStep_def Let_def)

lemma due_dbUntagged:
  "dueSchedules 1000 None dbUntagged =
     [fixtureRow ''s1'' ''q1'' (Some ''triagem'') 0, fixtureRow ''s2'' ''q2'' None 2]"
  by (simp add: dueSchedules_def dbUntagged_def subjectMatches_def fixtureRow_cols)

lemma query_dbUntagged:
  "statsQuery 1000 None dbUntagged =
     [\<lparr> total_due = 1, last_room = Some ''triagem'', subject_id = None, avg_streak = 0,
        max_streak = 0, next_review = 500 \<rparr>,
      \<lparr> total_due = 1, last_room = None, subject_id = None, avg_streak = 2,
        max_streak = 2, next_review = 500 \<rparr>]"
  by (simp add: statsQuery_def due_dbUntagged groupKey_def aggregateGroup_def fixtureRow_cols)

lemma counts_dbUntagged:
  "totalDue (getReviewStats 1000 None dbUntagged) = 2
   \<and> roomTotal (dueByRoom (getReviewStats 1000 None dbUntagged)) = 1"
  by (simp add: getReviewStats_counts query_dbUntagged statsLoop_def statsStep_def Let_def
      initialStats_def bumpRoom_def roomTotal_def)


section \<open>Properties of the review statistics\<close>

text \<open>
  C7. The claim is that \<^verbatim>\<open>averageStreak\<close> is the arithmetic mean of the correct streaks
  of all due schedules. The code averages the per-class averages of the query instead,
  each class counting once whatever its size. With three due schedules, two tagged
  \<^verbatim>\<open>triagem\<close> with streak 0 and one tagged \<^verbatim>\<open>verde\<close> with streak 3, the mean of the
  streaks is 1 and the code returns 3/2.
\<close>

theorem C7_average_of_class_averages:
  "length (dueSchedules 1000 None dbStreaks) = 3
   \<and> meanStreak (dueSchedules 1000 None dbStreaks) = 1
   \<and> averageStreak (streakData (getReviewStats 1000 None dbStreaks)) = 3 / 2"
  by (simp add: getReviewStats_def Let_def loop_dbStreaks due_dbStreaks meanStreak_def
      fixtureRow_cols)

text \<open>
  C10. The four tier counts add up to at most the total of due schedules. They need not
  add up to it: a due schedule whose tier tag is NULL is in the total and in no tier
  count, as the store with one \<^verbatim>\<open>triagem\<close> schedule and one untagged schedule shows.
\<close>

theorem C10_tiers_at_most_total:
  "roomTotal (dueByRoom (getReviewStats now ids db)) \<le> totalDue (getReviewStats now ids db)
   \<and> roomTotal (dueByRoom (getReviewStats 1000 None dbUntagged))
       < totalDue (getReviewStats 1000 None dbUntagged)"
  using counts_dbUntagged by (simp add: rooms_le_total)

end
